theory Spec2Isabelle
  imports Main
begin

section \<open>Python strings\<close>

text \<open>
  A Python \<open>str\<close> is a sequence of Unicode code points; a code point is a natural
  number. \<open>S\<close> turns an ASCII literal into such a sequence. The whitespace test is
  \<open>Py_UNICODE_ISSPACE\<close>, which both \<open>str.strip\<close> and the \<open>\\s\<close> of \<open>re\<close> use. The case
  tables are written out for U+0000..U+00FF, the range of every literal and pattern of
  \<open>main.py\<close>; a code point from U+0100 on is left as it is by \<open>lower_cp\<close> and
  \<open>title_cp\<close> and counts as uncased.
\<close>

type_synonym pystr = "nat list"

definition S :: "string \<Rightarrow> pystr" where
  "S cs = map of_char cs"

definition py_isspace :: "nat \<Rightarrow> bool" where
  "py_isspace c \<longleftrightarrow>
     (9 \<le> c \<and> c \<le> 13) \<or> (28 \<le> c \<and> c \<le> 32) \<or> c = 133 \<or> c = 160 \<or> c = 5760 \<or>
     (8192 \<le> c \<and> c \<le> 8202) \<or> c = 8232 \<or> c = 8233 \<or> c = 8239 \<or> c = 8287 \<or>
     c = 12288"

definition py_strip :: "pystr \<Rightarrow> pystr" where
  "py_strip s = rev (dropWhile py_isspace (rev (dropWhile py_isspace s)))"

definition is_upper_cp :: "nat \<Rightarrow> bool" where
  "is_upper_cp c \<longleftrightarrow> (65 \<le> c \<and> c \<le> 90) \<or> (192 \<le> c \<and> c \<le> 222 \<and> c \<noteq> 215)"

definition is_lower_cp :: "nat \<Rightarrow> bool" where
  "is_lower_cp c \<longleftrightarrow>
     (97 \<le> c \<and> c \<le> 122) \<or> c = 170 \<or> c = 181 \<or> c = 186 \<or>
     (223 \<le> c \<and> c \<le> 255 \<and> c \<noteq> 247)"

definition is_cased :: "nat \<Rightarrow> bool" where
  "is_cased c \<longleftrightarrow> is_upper_cp c \<or> is_lower_cp c"

definition lower_cp :: "nat \<Rightarrow> nat" where
  "lower_cp c = (if is_upper_cp c then c + 32 else c)"

definition py_lower :: "pystr \<Rightarrow> pystr" where
  "py_lower s = map lower_cp s"

text \<open>
  The title-case mapping of one code point: the micro sign goes to U+039C, y with
  diaeresis to U+0178, sharp s to the two letters \<open>Ss\<close>; a, o ordinal indicators have no
  upper case.
\<close>

definition title_cp :: "nat \<Rightarrow> pystr" where
  "title_cp c =
     (if c = 181 then [924]
      else if c = 223 then [83, 115]
      else if c = 255 then [376]
      else if c = 170 \<or> c = 186 then [c]
      else if is_lower_cp c then [c - 32]
      else [c])"

text \<open>
  \<open>str.title\<close>: a character that follows a cased character is lowered, any other one is
  title-cased.
\<close>

fun title_from :: "bool \<Rightarrow> pystr \<Rightarrow> pystr" where
  "title_from prev [] = []"
| "title_from prev (c # cs) =
     (if prev then [lower_cp c] else title_cp c) @ title_from (is_cased c) cs"

definition py_title :: "pystr \<Rightarrow> pystr" where
  "py_title s = title_from False s"

section \<open>Regular expressions\<close>

text \<open>
  The fragment of \<open>re\<close> that the patterns of \<open>main.py\<close> use: literals, \<open>\\s\<close>, \<open>[^?]\<close>,
  concatenation, alternation, the greedy \<open>?\<close> and \<open>+\<close>. \<open>rx_match r s\<close> lists the
  suffixes of \<open>s\<close> that remain after a match of \<open>r\<close> at the start of \<open>s\<close>, in the order
  in which the backtracking matcher of \<open>re\<close> tries them: the first branch of an
  alternation first, the longer repetition first.
\<close>

datatype rx = Lit pystr | Space | NotQ | Seq rx rx | Alt rx rx | Opt rx | Plus rx

fun rx_match :: "rx \<Rightarrow> pystr \<Rightarrow> pystr list" where
  "rx_match (Lit w) s = (if take (length w) s = w then [drop (length w) s] else [])"
| "rx_match Space s = (case s of [] \<Rightarrow> [] | c # cs \<Rightarrow> if py_isspace c then [cs] else [])"
| "rx_match NotQ s = (case s of [] \<Rightarrow> [] | c # cs \<Rightarrow> if c \<noteq> 63 then [cs] else [])"
| "rx_match (Seq a b) s = concat (map (\<lambda>t. rx_match b t) (rx_match a s))"
| "rx_match (Alt a b) s = rx_match a s @ rx_match b s"
| "rx_match (Opt a) s = rx_match a s @ [s]"
| "rx_match (Plus a) s =
     concat (map (\<lambda>t. (if length t < length s then rx_match (Plus a) t else []) @ [t])
       (rx_match a s))"

definition cat :: "rx list \<Rightarrow> rx" where
  "cat rs = foldr Seq rs (Lit [])"

text \<open>
  Every search pattern of the source is a prefix followed by its one capturing group, so
  a pattern is the pair of both. \<open>match_here\<close> is the match that starts at the
  beginning of \<open>s\<close> and yields \<open>group(1)\<close>; \<open>re_search\<close> scans the start positions from
  the left.
\<close>

type_synonym pattern = "rx \<times> rx"

fun first_group :: "rx \<Rightarrow> pystr list \<Rightarrow> pystr option" where
  "first_group g [] = None"
| "first_group g (t # ts) =
     (case rx_match g t of
        [] \<Rightarrow> first_group g ts
      | u # _ \<Rightarrow> Some (take (length t - length u) t))"

definition match_here :: "pattern \<Rightarrow> pystr \<Rightarrow> pystr option" where
  "match_here p s = first_group (snd p) (rx_match (fst p) s)"

fun re_search :: "pattern \<Rightarrow> pystr \<Rightarrow> pystr option" where
  "re_search p [] = match_here p []"
| "re_search p (c # cs) =
     (case match_here p (c # cs) of Some g \<Rightarrow> Some g | None \<Rightarrow> re_search p cs)"

text \<open>
  \<open>re.sub(r, '', s)\<close> for a pattern \<open>r\<close> that starts with \<open>^\<close> and matches no empty
  string: the only possible match starts at position 0, and it is cut off.
\<close>

definition re_sub_anchored :: "rx \<Rightarrow> pystr \<Rightarrow> pystr" where
  "re_sub_anchored r s = (case rx_match r s of [] \<Rightarrow> s | t # _ \<Rightarrow> t)"

section \<open>Free-text extraction\<close>

definition opt_de :: rx where
  "opt_de = Opt (Seq (Lit (S ''de'')) (Plus Space))"

definition opt_la :: rx where
  "opt_la = Opt (Seq (Lit (S ''la'')) (Plus Space))"

definition name_group :: rx where
  "name_group = Plus NotQ"

definition initiative_patterns :: "pattern list" where
  "initiative_patterns =
     [(cat [Lit (S ''iniciativa''), Plus Space, opt_de], name_group),
      (cat [Alt (Lit (S ''progreso'')) (Lit (S ''estado'')), Plus Space, Lit (S ''de''),
            Plus Space, opt_la], name_group),
      (cat [Lit (S ''c'' @ [243] @ S ''mo''), Plus Space, Lit (S ''va''), Plus Space, opt_la],
       name_group)]"

definition initiative_cleanup :: rx where
  "initiative_cleanup = cat [opt_la, Lit (S ''iniciativa''), Plus Space, opt_de]"

fun first_match :: "pattern list \<Rightarrow> pystr \<Rightarrow> pystr option" where
  "first_match [] s = None"
| "first_match (p # ps) s =
     (case re_search p s of Some g \<Rightarrow> Some g | None \<Rightarrow> first_match ps s)"

definition extract_initiative_name_from_text :: "pystr \<Rightarrow> pystr option" where
  "extract_initiative_name_from_text text =
     (let text_lower = py_strip (py_lower text) in
      case first_match initiative_patterns text_lower of
        None \<Rightarrow> None
      | Some g \<Rightarrow> Some (py_title (re_sub_anchored initiative_cleanup (py_strip g))))"

definition area_word :: pystr where
  "area_word = [225] @ S ''rea''"

definition division_word :: pystr where
  "division_word = S ''divisi'' @ [243] @ S ''n''"

definition area_patterns :: "pattern list" where
  "area_patterns =
     [(cat [Lit area_word, Plus Space, opt_de], name_group),
      (cat [Lit division_word, Plus Space, opt_de], name_group),
      (cat [Lit (S ''departamento''), Plus Space, opt_de], name_group),
      (cat [Lit (S ''kpi''), Opt (Lit (S ''s'')), Plus Space, Lit (S ''de''),
            Opt (Lit (S ''l'')), Plus Space, Lit area_word, Plus Space, opt_de], name_group)]"

definition area_cleanup :: rx where
  "area_cleanup =
     cat [Opt (Alt (Seq (Lit (S ''la'')) (Plus Space)) (Seq (Lit (S ''el'')) (Plus Space))),
          Alt (Lit area_word) (Alt (Lit division_word) (Lit (S ''departamento''))),
          Plus Space, opt_de]"

definition extract_area_name_from_text :: "pystr \<Rightarrow> pystr option" where
  "extract_area_name_from_text text =
     (let text_lower = py_strip (py_lower text) in
      case first_match area_patterns text_lower of
        None \<Rightarrow> None
      | Some g \<Rightarrow> Some (py_title (re_sub_anchored area_cleanup (py_strip g))))"

section \<open>JSON values and the Python operations on them\<close>

text \<open>
  A decoded JSON body. \<open>JNull\<close> is Python's \<open>None\<close>; \<open>JFloat m e\<close> stands for the float
  \<open>m * 2 ^ e\<close>, of which only its truth value is used. A \<open>dict\<close> is an association
  list in insertion order without repeated keys; a lookup takes the first entry.
\<close>

datatype json =
    JNull
  | JBool bool
  | JInt int
  | JFloat int int
  | JStr pystr
  | JList "json list"
  | JObj "(pystr \<times> json) list"

fun truthy :: "json \<Rightarrow> bool" where
  "truthy JNull = False"
| "truthy (JBool b) = b"
| "truthy (JInt i) = (i \<noteq> 0)"
| "truthy (JFloat m e) = (m \<noteq> 0)"
| "truthy (JStr s) = (s \<noteq> [])"
| "truthy (JList xs) = (xs \<noteq> [])"
| "truthy (JObj kv) = (kv \<noteq> [])"

fun type_name :: "json \<Rightarrow> pystr" where
  "type_name JNull = S ''NoneType''"
| "type_name (JBool b) = S ''bool''"
| "type_name (JInt i) = S ''int''"
| "type_name (JFloat m e) = S ''float''"
| "type_name (JStr s) = S ''str''"
| "type_name (JList xs) = S ''list''"
| "type_name (JObj kv) = S ''dict''"

text \<open>
  The exceptions of one request. \<open>ValueError\<close>, \<open>RequestException\<close> and \<open>External\<close> (any
  other exception of a collaborator) carry their message; the interpreter's own
  exceptions carry what the message is built from.
\<close>

datatype exn =
    ValueError pystr
  | AttributeError pystr pystr
  | TypeError pystr
  | KeyError pystr
  | UnboundLocalError pystr
  | RequestException pystr
  | External pystr

definition bind :: "exn + 'a \<Rightarrow> ('a \<Rightarrow> exn + 'b) \<Rightarrow> exn + 'b" where
  "bind m f = (case m of Inl e \<Rightarrow> Inl e | Inr x \<Rightarrow> f x)"

fun is_substring :: "pystr \<Rightarrow> pystr \<Rightarrow> bool" where
  "is_substring k [] = (k = [])"
| "is_substring k (c # cs) = (take (length k) (c # cs) = k \<or> is_substring k cs)"

definition has_key :: "(pystr \<times> json) list \<Rightarrow> pystr \<Rightarrow> bool" where
  "has_key kv k \<longleftrightarrow> map_of kv k \<noteq> None"

definition get_or :: "(pystr \<times> json) list \<Rightarrow> pystr \<Rightarrow> json \<Rightarrow> json" where
  "get_or kv k d = (case map_of kv k of None \<Rightarrow> d | Some v \<Rightarrow> v)"

text \<open>\<open>k in x\<close> for a string \<open>k\<close>.\<close>

fun py_contains :: "pystr \<Rightarrow> json \<Rightarrow> exn + bool" where
  "py_contains k (JObj kv) = Inr (has_key kv k)"
| "py_contains k (JList xs) = Inr (JStr k \<in> set xs)"
| "py_contains k (JStr s) = Inr (is_substring k s)"
| "py_contains k x = Inl (TypeError (type_name x))"

text \<open>\<open>x.get(k, d)\<close>: only a \<open>dict\<close> has the method.\<close>

fun py_get :: "json \<Rightarrow> pystr \<Rightarrow> json \<Rightarrow> exn + json" where
  "py_get (JObj kv) k d = Inr (get_or kv k d)"
| "py_get x k d = Inl (AttributeError (type_name x) (S ''get''))"

text \<open>\<open>x[k]\<close> for a string \<open>k\<close>.\<close>

fun py_getitem :: "json \<Rightarrow> pystr \<Rightarrow> exn + json" where
  "py_getitem (JObj kv) k = (case map_of kv k of None \<Rightarrow> Inl (KeyError k) | Some v \<Rightarrow> Inr v)"
| "py_getitem x k = Inl (TypeError (type_name x))"

text \<open>\<open>d[k] = v\<close> on a \<open>dict\<close>: an existing key keeps its place, a new one goes last.\<close>

fun dict_set :: "(pystr \<times> json) list \<Rightarrow> pystr \<Rightarrow> json \<Rightarrow> (pystr \<times> json) list" where
  "dict_set [] k v = [(k, v)]"
| "dict_set (p # ps) k v = (if fst p = k then (k, v) # ps else p # dict_set ps k v)"

section \<open>The world of one request\<close>

text \<open>
  What the handler reads from outside: the decoded body (\<open>JNull\<close> when
  \<open>get_json(silent=True)\<close> gives \<open>None\<close>), the process environment, the secret manager
  (by resource name, with the payload already decoded), the downstream HTTP service,
  and two built-ins of the interpreter: \<open>str()\<close> of a value that is no string, and the
  message of an exception that the interpreter raises itself.
\<close>

datatype post_result =
    PostRaised exn
  | Responded int pystr "exn + json"

record world =
  request_json :: json
  environ :: "pystr \<Rightarrow> pystr option"
  access_secret_version :: "pystr \<Rightarrow> exn + pystr"
  requests_post :: "pystr \<Rightarrow> json \<Rightarrow> json \<Rightarrow> post_result"
  builtin_str :: "json \<Rightarrow> pystr"
  exc_text :: "exn \<Rightarrow> pystr"

definition py_str :: "world \<Rightarrow> json \<Rightarrow> pystr" where
  "py_str w v = (case v of JStr s \<Rightarrow> s | _ \<Rightarrow> builtin_str w v)"

definition exc_str :: "world \<Rightarrow> exn \<Rightarrow> pystr" where
  "exc_str w e =
     (case e of
        ValueError m \<Rightarrow> m
      | RequestException m \<Rightarrow> m
      | External m \<Rightarrow> m
      | _ \<Rightarrow> exc_text w e)"

definition is_request_exception :: "exn \<Rightarrow> bool" where
  "is_request_exception e = (case e of RequestException m \<Rightarrow> True | _ \<Rightarrow> False)"

definition is_value_error :: "exn \<Rightarrow> bool" where
  "is_value_error e = (case e of ValueError m \<Rightarrow> True | _ \<Rightarrow> False)"

text \<open>\<open>a or b\<close> on the results of \<open>os.environ.get\<close>.\<close>

definition py_or :: "pystr option \<Rightarrow> pystr option \<Rightarrow> pystr option" where
  "py_or a b = (case a of None \<Rightarrow> b | Some s \<Rightarrow> if s \<noteq> [] then a else b)"

definition get_secret :: "world \<Rightarrow> pystr \<Rightarrow> exn + pystr" where
  "get_secret w secret_name =
     (case py_or (py_or (environ w (S ''GCP_PROJECT'')) (environ w (S ''GOOGLE_CLOUD_PROJECT'')))
             (environ w (S ''PROJECT_ID'')) of
        None \<Rightarrow> Inl (ValueError (S ''No project ID found in environment variables''))
      | Some project_id \<Rightarrow>
          if project_id = [] then
            Inl (ValueError (S ''No project ID found in environment variables''))
          else
            bind (access_secret_version w
                    (S ''projects/'' @ project_id @ S ''/secrets/'' @ secret_name @
                     S ''/versions/latest''))
              (\<lambda>data. Inr (py_strip data)))"

definition get_platform_base_url :: "world \<Rightarrow> exn + pystr" where
  "get_platform_base_url w =
     (let from_secret =
        (case get_secret w (S ''stratix-platform-url'') of
           Inl e \<Rightarrow> Inl (ValueError (S ''Platform URL not configured - add STRATIX_PLATFORM_URL environment variable or secret''))
         | Inr u \<Rightarrow> Inr u)
      in case environ w (S ''STRATIX_PLATFORM_URL'') of
           None \<Rightarrow> from_secret
         | Some base_url \<Rightarrow> if base_url \<noteq> [] then Inr base_url else from_secret)"

section \<open>Mapping parameters to an action\<close>

text \<open>
  The chain of lines 166 to 198, which lines 219 to 251 repeat word for word: the two
  copies differ in their last \<open>else\<close> only, which is the argument \<open>otherwise\<close>.
\<close>

definition either_in :: "pystr \<Rightarrow> pystr \<Rightarrow> json \<Rightarrow> exn + bool" where
  "either_in k1 k2 params =
     bind (py_contains k1 params) (\<lambda>b. if b then Inr True else py_contains k2 params)"

definition two_params :: "json \<Rightarrow> pystr \<Rightarrow> json \<Rightarrow> pystr \<Rightarrow> json \<Rightarrow> exn + json" where
  "two_params params k1 d1 k2 d2 =
     bind (py_get params k1 d1) (\<lambda>v1.
     bind (py_get params k2 d2) (\<lambda>v2. Inr (JObj [(k1, v1), (k2, v2)])))"

definition with_action :: "pystr \<Rightarrow> exn + json \<Rightarrow> exn + pystr \<times> json" where
  "with_action action m = bind m (\<lambda>supabase_params. Inr (action, supabase_params))"

definition param_chain :: "json \<Rightarrow> (exn + pystr \<times> json) \<Rightarrow> exn + pystr \<times> json" where
  "param_chain params otherwise =
     bind (either_in (S ''nombre_iniciativa'') (S ''initiative_id'') params) (\<lambda>c1.
     if c1 then
       with_action (S ''get_initiative_status'')
         (two_params params (S ''nombre_iniciativa'') JNull (S ''initiative_id'') JNull)
     else
     bind (either_in (S ''nombre_area'') (S ''area_id'') params) (\<lambda>c2.
     if c2 then
       with_action (S ''get_area_kpis'')
         (two_params params (S ''nombre_area'') JNull (S ''area_id'') JNull)
     else
     bind (py_contains (S ''user_id'') params) (\<lambda>c3.
     if c3 then
       with_action (S ''get_user_initiatives'')
         (two_params params (S ''user_id'') JNull (S ''limit'') (JInt 10))
     else
     bind (py_contains (S ''query'') params) (\<lambda>c4.
     if c4 then
       with_action (S ''search_initiatives'')
         (two_params params (S ''query'') JNull (S ''limit'') (JInt 20))
     else
     bind (py_get params (S ''action'') JNull) (\<lambda>a5.
     if a5 = JStr (S ''company_overview'') then
       Inr (S ''get_company_overview'', JObj [])
     else
     bind (py_get params (S ''action'') JNull) (\<lambda>a6.
     if a6 = JStr (S ''suggestions'') then
       with_action (S ''get_initiative_suggestions'')
         (two_params params (S ''area_id'') JNull (S ''user_role'') JNull)
     else otherwise))))))"

text \<open>Lines 166 to 201: no match raises.\<close>

definition map_tool_parameters :: "world \<Rightarrow> json \<Rightarrow> exn + pystr \<times> json" where
  "map_tool_parameters w params =
     param_chain params
       (Inl (ValueError (S ''No valid action found for tool parameters: '' @ py_str w params)))"

text \<open>Lines 219 to 255: no match gives the company overview.\<close>

definition map_parameters_default :: "json \<Rightarrow> exn + pystr \<times> json" where
  "map_parameters_default params =
     param_chain params (Inr (S ''get_company_overview'', JObj []))"

section \<open>Normalising the two request shapes\<close>

text \<open>\<open>text.lower()\<close> and the like need a \<open>str\<close>.\<close>

definition as_str :: "json \<Rightarrow> pystr \<Rightarrow> exn + pystr" where
  "as_str v method =
     (case v of JStr s \<Rightarrow> Inr s | _ \<Rightarrow> Inl (AttributeError (type_name v) method))"

definition name_params :: "pystr \<Rightarrow> pystr option \<Rightarrow> json" where
  "name_params k name =
     (case name of
        None \<Rightarrow> JObj []
      | Some n \<Rightarrow> if n \<noteq> [] then JObj [(k, JStr n)] else JObj [])"

text \<open>
  Lines 122 to 154. The result is the triple of \<open>params\<close>, \<open>action\<close> and
  \<open>supabase_params\<close> as they stand at line 154.
\<close>

definition webhook_normalize :: "world \<Rightarrow> json \<Rightarrow> exn + json \<times> pystr \<times> json" where
  "webhook_normalize w rj =
     bind (py_get rj (S ''fulfillmentInfo'') (JObj [])) (\<lambda>fulfillment_info.
     bind (py_get fulfillment_info (S ''tag'') (JStr [])) (\<lambda>tag.
     bind (py_get rj (S ''sessionInfo'') (JObj [])) (\<lambda>session_info.
     bind (py_get session_info (S ''parameters'') (JObj [])) (\<lambda>params.
     if tag = JStr (S ''company_overview'') then
       Inr (params, S ''get_company_overview'', JObj [])
     else if tag = JStr (S ''initiative_status'') then
       bind (py_get rj (S ''text'') (JStr [])) (\<lambda>user_text.
       bind (as_str user_text (S ''lower'')) (\<lambda>t.
         Inr (params, S ''get_initiative_status'',
              name_params (S ''nombre_iniciativa'') (extract_initiative_name_from_text t))))
     else if tag = JStr (S ''area_kpis'') then
       bind (py_get rj (S ''text'') (JStr [])) (\<lambda>user_text.
       bind (as_str user_text (S ''lower'')) (\<lambda>t.
         Inr (params, S ''get_area_kpis'',
              name_params (S ''nombre_area'') (extract_area_name_from_text t))))
     else Inl (ValueError (S ''Unsupported tag: '' @ py_str w tag))))))"

text \<open>\<open>tool_name_full.split('/')[-1] if tool_name_full else 'unknown'\<close>\<close>

definition tool_name :: "json \<Rightarrow> exn + pystr" where
  "tool_name tool_name_full =
     (if truthy tool_name_full then
        bind (as_str tool_name_full (S ''split''))
          (\<lambda>s. Inr (rev (takeWhile (\<lambda>c. c \<noteq> 47) (rev s))))
      else Inr (S ''unknown''))"

text \<open>
  Lines 158 to 201. The first component tells whether \<open>tool_name_full\<close> got bound, and
  to what.
\<close>

definition tool_normalize :: "world \<Rightarrow> json \<Rightarrow> json option \<times> (exn + json \<times> pystr \<times> json)" where
  "tool_normalize w rj =
     (case py_get rj (S ''tool'') (JStr []) of
        Inl e \<Rightarrow> (None, Inl e)
      | Inr tool_name_full \<Rightarrow>
          (Some tool_name_full,
           bind (tool_name tool_name_full) (\<lambda>name.
           bind (py_get rj (S ''tool_parameters'') (JObj [])) (\<lambda>params.
           bind (map_tool_parameters w params) (\<lambda>m.
             Inr (params, fst m, snd m))))))"

definition normalize :: "world \<Rightarrow> json \<Rightarrow> json option \<times> (exn + json \<times> pystr \<times> json)" where
  "normalize w rj =
     (case py_contains (S ''fulfillmentInfo'') rj of
        Inl e \<Rightarrow> (None, Inl e)
      | Inr is_webhook \<Rightarrow>
          if is_webhook then (None, webhook_normalize w rj) else tool_normalize w rj)"

section \<open>The handler\<close>

datatype response = Response (status: nat) (body: json)

text \<open>
  Where the first part of the \<open>try\<close> block ends: with the \<open>return\<close> of line 208, or with
  the call of line 276, of which \<open>action\<close>, the URL, the payload and the headers are
  kept.
\<close>

datatype step =
    Return response
  | Call pystr pystr json json

definition credentials_reply :: "json option \<Rightarrow> exn + step" where
  "credentials_reply tool_name_full =
     (case tool_name_full of
        None \<Rightarrow> Inl (UnboundLocalError (S ''tool_name_full''))
      | Some t \<Rightarrow>
          Inr (Return (Response 500
            (JObj [(S ''tool_output'',
               JList [JObj [(S ''tool'', t),
                 (S ''output'',
                  JObj [(S ''error'', JStr (S ''Unable to retrieve Supabase credentials''))])]])]))))"

definition make_headers :: "pystr \<Rightarrow> json" where
  "make_headers supabase_key =
     JObj [(S ''Content-Type'', JStr (S ''application/json'')),
           (S ''Authorization'', JStr (S ''Bearer '' @ supabase_key)),
           (S ''apikey'', JStr supabase_key)]"

definition make_payload :: "pystr \<Rightarrow> json \<Rightarrow> json \<Rightarrow> exn + json" where
  "make_payload action supabase_params params =
     (let payload = [(S ''action'', JStr action), (S ''params'', supabase_params)] in
      bind (py_contains (S ''user_token'') params) (\<lambda>has_token.
      if has_token then
        bind (py_getitem params (S ''user_token'')) (\<lambda>token.
          Inr (JObj (dict_set payload (S ''user_token'') token)))
      else Inr (JObj payload)))"

text \<open>
  Lines 203 to 274, after normalisation has left \<open>params\<close>, \<open>action\<close> and
  \<open>supabase_params\<close>: the latter two are assigned anew at line 219 before anything
  reads them.
\<close>

definition route :: "world \<Rightarrow> json option \<Rightarrow> json \<times> pystr \<times> json \<Rightarrow> exn + step" where
  "route w tool_name_full norm =
     (let params = fst norm in
      bind (get_secret w (S ''supabase-edge-function-url'')) (\<lambda>supabase_url.
      bind (get_secret w (S ''supabase-anon-key'')) (\<lambda>supabase_key.
      if supabase_url = [] \<or> supabase_key = [] then credentials_reply tool_name_full
      else
        bind (map_parameters_default params) (\<lambda>m.
        bind (make_payload (fst m) (snd m) params) (\<lambda>payload.
          Inr (Call (fst m) supabase_url payload (make_headers supabase_key)))))))"

definition prepare :: "world \<Rightarrow> json \<Rightarrow> json option \<times> (exn + step)" where
  "prepare w rj =
     (let n = normalize w rj in (fst n, bind (snd n) (route w (fst n))))"

subsection \<open>Enrichment\<close>

definition a_acute :: pystr where
  "a_acute = [225]"

definition initiative_summary :: "world \<Rightarrow> json \<Rightarrow> exn + pystr" where
  "initiative_summary w output_data =
     bind (py_get output_data (S ''title'') (JStr [])) (\<lambda>title.
     bind (py_get output_data (S ''progress'') (JInt 0)) (\<lambda>progress.
     bind (py_get output_data (S ''status'') (JStr [])) (\<lambda>st.
       Inr (S ''La iniciativa '' @ [39] @ py_str w title @ [39] @
            S '' tiene un progreso del '' @ py_str w progress @
            S ''% y est'' @ a_acute @ S '' en estado '' @ [39] @ py_str w st @ [39] @
            S ''.''))))"

definition area_summary :: "world \<Rightarrow> json \<Rightarrow> exn + pystr" where
  "area_summary w output_data =
     bind (py_get output_data (S ''area_name'') (JStr [])) (\<lambda>area_name.
     bind (py_get output_data (S ''total_initiatives'') (JInt 0)) (\<lambda>total.
     bind (py_get output_data (S ''avg_progress'') (JInt 0)) (\<lambda>avg.
       Inr (S ''El '' @ area_word @ S '' '' @ [39] @ py_str w area_name @ [39] @
            S '' tiene '' @ py_str w total @
            S '' iniciativas con un progreso promedio del '' @ py_str w avg @
            S ''%.''))))"

definition company_summary :: "world \<Rightarrow> json \<Rightarrow> exn + pystr" where
  "company_summary w output_data =
     bind (py_get output_data (S ''company_metrics'') (JObj [])) (\<lambda>metrics.
     bind (py_get metrics (S ''total_initiatives'') (JInt 0)) (\<lambda>total.
     bind (py_get metrics (S ''completed_initiatives'') (JInt 0)) (\<lambda>completed.
     bind (py_get metrics (S ''overall_progress'') (JInt 0)) (\<lambda>overall.
       Inr (S ''La empresa tiene '' @ py_str w total @ S '' iniciativas, '' @
            py_str w completed @ S '' completadas y un progreso general del '' @
            py_str w overall @ S ''%.'')))))"

text \<open>\<open>output_data[k] = v\<close>\<close>

definition py_setitem :: "json \<Rightarrow> pystr \<Rightarrow> json \<Rightarrow> exn + json" where
  "py_setitem d k v =
     (case d of
        JObj kv \<Rightarrow> Inr (JObj (dict_set kv k v))
      | _ \<Rightarrow> Inl (TypeError (type_name d)))"

definition linked :: "world \<Rightarrow> pystr \<Rightarrow> pystr \<Rightarrow> pystr \<Rightarrow> json \<Rightarrow> exn + json" where
  "linked w platform_url path id_key output_data =
     (if platform_url \<noteq> [] then
        bind (py_get output_data id_key JNull) (\<lambda>i.
        if truthy i then
          py_setitem output_data (S ''link'') (JStr (platform_url @ path @ py_str w i))
        else Inr output_data)
      else Inr output_data)"

text \<open>Lines 290 to 306, with \<open>platform_url\<close> at hand.\<close>

definition enrich_with :: "world \<Rightarrow> pystr \<Rightarrow> pystr \<Rightarrow> json \<Rightarrow> exn + json" where
  "enrich_with w platform_url action output_data =
     (if action = S ''get_initiative_status'' \<and> truthy output_data then
        bind (linked w platform_url (S ''/initiatives/'') (S ''id'') output_data) (\<lambda>d.
        bind (initiative_summary w d) (\<lambda>r. py_setitem d (S ''resumen'') (JStr r)))
      else if action = S ''get_area_kpis'' \<and> truthy output_data then
        bind (linked w platform_url (S ''/areas/'') (S ''area_id'') output_data) (\<lambda>d.
        bind (area_summary w d) (\<lambda>r. py_setitem d (S ''resumen'') (JStr r)))
      else if action = S ''get_company_overview'' \<and> truthy output_data then
        bind (company_summary w output_data) (\<lambda>r.
        bind (py_setitem output_data (S ''resumen'') (JStr r)) (\<lambda>d.
        if platform_url \<noteq> [] then
          py_setitem d (S ''link'') (JStr (platform_url @ S ''/dashboard''))
        else Inr d))
      else Inr output_data)"

text \<open>
  Lines 289 to 310: the \<open>try\<close> whose handler takes a \<open>ValueError\<close> and goes on with
  \<open>output_data\<close> as it is.
\<close>

definition enrich :: "world \<Rightarrow> pystr \<Rightarrow> json \<Rightarrow> exn + json" where
  "enrich w action output_data =
     (case get_platform_base_url w of
        Inl e \<Rightarrow> if is_value_error e then Inr output_data else Inl e
      | Inr platform_url \<Rightarrow> enrich_with w platform_url action output_data)"

text \<open>Lines 276 to 317: the call and what is made of its response.\<close>

definition call_downstream :: "world \<Rightarrow> pystr \<Rightarrow> pystr \<Rightarrow> json \<Rightarrow> json \<Rightarrow> exn + json" where
  "call_downstream w action supabase_url payload headers =
     (case requests_post w supabase_url payload headers of
        PostRaised e \<Rightarrow> Inl e
      | Responded status_code text decoded \<Rightarrow>
          if status_code = 200 then
            bind decoded (\<lambda>result.
            bind (py_get result (S ''success'') JNull) (\<lambda>success.
            if truthy success then
              bind (py_get result (S ''data'') (JObj [])) (\<lambda>output_data.
                enrich w action output_data)
            else
              bind (py_get result (S ''error'') (JStr (S ''Unknown error from Supabase'')))
                (\<lambda>err. Inr (JObj [(S ''error'', err)]))))
          else
            Inr (JObj [(S ''error'',
              JStr (S ''Supabase request failed: '' @ py_str w (JInt status_code) @
                    S '' - '' @ text))]))"

text \<open>The two handlers of lines 319 to 323.\<close>

definition on_exception :: "world \<Rightarrow> exn \<Rightarrow> json" where
  "on_exception w e =
     (if is_request_exception e then
        JObj [(S ''error'', JStr (S ''Network error calling Supabase: '' @ exc_str w e))]
      else JObj [(S ''error'', JStr (S ''Internal error: '' @ exc_str w e))])"

definition webhook_reply :: "json \<Rightarrow> json" where
  "webhook_reply response_text =
     JObj [(S ''fulfillmentResponse'',
       JObj [(S ''messages'',
         JList [JObj [(S ''text'', JObj [(S ''text'', JList [response_text])])]])])]"

text \<open>
  Lines 326 to 352, outside the \<open>try\<close>: an exception here leaves the function, which is
  the result \<open>Inl\<close>.
\<close>

definition respond :: "world \<Rightarrow> json \<Rightarrow> json option \<Rightarrow> json \<Rightarrow> exn + response" where
  "respond w rj tool_name_full output_data =
     bind (py_contains (S ''fulfillmentInfo'') rj) (\<lambda>is_webhook.
     if is_webhook then
       bind (py_get output_data (S ''resumen'')
               (JStr (S ''Datos obtenidos correctamente de Stratix.''))) (\<lambda>response_text.
       bind (py_contains (S ''error'') output_data) (\<lambda>failed.
       if failed then
         bind (py_getitem output_data (S ''error'')) (\<lambda>err.
           Inr (Response 200
             (webhook_reply (JStr (S ''Lo siento, hubo un error: '' @ py_str w err)))))
       else Inr (Response 200 (webhook_reply response_text))))
     else
       (case tool_name_full of
          None \<Rightarrow> Inl (UnboundLocalError (S ''tool_name_full''))
        | Some t \<Rightarrow>
            Inr (Response 200
              (JObj [(S ''tool_output'',
                 JList [JObj [(S ''tool'', t), (S ''output'', output_data)]])]))))"

definition no_data_reply :: json where
  "no_data_reply = webhook_reply (JStr (S ''Error: No se recibieron datos''))"

text \<open>
  The \<open>try\<close> statement from line 120 on: it is left by a \<open>return\<close> (\<open>Inl\<close>), or it
  leaves \<open>output_data\<close>, from its body or from one of its two handlers.
\<close>

definition try_block :: "world \<Rightarrow> json \<Rightarrow> json option \<times> (response + json)" where
  "try_block w rj =
     (let p = prepare w rj in
      (fst p,
       case snd p of
         Inl e \<Rightarrow> Inr (on_exception w e)
       | Inr (Return resp) \<Rightarrow> Inl resp
       | Inr (Call action supabase_url payload headers) \<Rightarrow>
           (case call_downstream w action supabase_url payload headers of
              Inl e \<Rightarrow> Inr (on_exception w e)
            | Inr output_data \<Rightarrow> Inr output_data)))"

definition bot_stratix_backend_generative :: "world \<Rightarrow> exn + response" where
  "bot_stratix_backend_generative w =
     (let rj = request_json w in
      if \<not> truthy rj then Inr (Response 400 no_data_reply)
      else
        (case snd (try_block w rj) of
           Inl resp \<Rightarrow> Inr resp
         | Inr output_data \<Rightarrow> respond w rj (fst (try_block w rj)) output_data))"

text \<open>
  The arguments of the call to the downstream service, when the request gets there:
  the URL, the payload and the headers.
\<close>

definition outbound :: "world \<Rightarrow> (pystr \<times> json \<times> json) option" where
  "outbound w =
     (if \<not> truthy (request_json w) then None
      else
        (case snd (prepare w (request_json w)) of
           Inr (Call action supabase_url payload headers) \<Rightarrow>
             Some (supabase_url, payload, headers)
         | _ \<Rightarrow> None))"

section \<open>The notions of the specification\<close>

text \<open>
  The top-level parameter mapping of a request: the session parameters of a webhook
  call, the tool parameters of a tool call.
\<close>

definition request_params :: "json \<Rightarrow> exn + json" where
  "request_params rj =
     bind (py_contains (S ''fulfillmentInfo'') rj) (\<lambda>is_webhook.
     if is_webhook then
       bind (py_get rj (S ''sessionInfo'') (JObj [])) (\<lambda>session_info.
         py_get session_info (S ''parameters'') (JObj []))
     else py_get rj (S ''tool_parameters'') (JObj []))"

text \<open>
  The predicate list of the tool-call mapper as the specification words it, in its
  order, each predicate with its action; \<open>first_match_wins\<close> takes the action of the
  first predicate that holds.
\<close>

definition tool_predicates :: "(((pystr \<times> json) list \<Rightarrow> bool) \<times> pystr) list" where
  "tool_predicates =
     [(\<lambda>kv. has_key kv (S ''nombre_iniciativa'') \<or> has_key kv (S ''initiative_id''),
       S ''get_initiative_status''),
      (\<lambda>kv. has_key kv (S ''nombre_area'') \<or> has_key kv (S ''area_id''),
       S ''get_area_kpis''),
      (\<lambda>kv. has_key kv (S ''user_id''), S ''get_user_initiatives''),
      (\<lambda>kv. has_key kv (S ''query''), S ''search_initiatives''),
      (\<lambda>kv. get_or kv (S ''action'') JNull = JStr (S ''company_overview''),
       S ''get_company_overview''),
      (\<lambda>kv. get_or kv (S ''action'') JNull = JStr (S ''suggestions''),
       S ''get_initiative_suggestions'')]"

definition first_match_wins :: "(pystr \<times> json) list \<Rightarrow> pystr option" where
  "first_match_wins kv = map_option snd (find (\<lambda>pa. fst pa kv) tool_predicates)"

text \<open>The closed set of actions.\<close>

definition action_kinds :: "pystr set" where
  "action_kinds =
     {S ''get_company_overview'', S ''get_initiative_status'', S ''get_area_kpis'',
      S ''get_user_initiatives'', S ''search_initiatives'', S ''get_initiative_suggestions''}"

text \<open>The tags of the webhook table.\<close>

definition supported_tags :: "json set" where
  "supported_tags =
     {JStr (S ''company_overview''), JStr (S ''initiative_status''), JStr (S ''area_kpis'')}"

text \<open>A client error of the HTTP layer: a response with a status from 400 to 499.\<close>

definition client_error :: "exn + response \<Rightarrow> bool" where
  "client_error r =
     (case r of Inl e \<Rightarrow> False | Inr resp \<Rightarrow> 400 \<le> status resp \<and> status resp < 500)"

fun is_dict :: "json \<Rightarrow> bool" where
  "is_dict (JObj kv) = True"
| "is_dict x = False"


text \<open>
  The envelope of the downstream service as the specification expects it: where a
  response reports success, its \<open>data\<close> is an object, or absent.
\<close>

definition data_is_object :: "post_result \<Rightarrow> bool" where
  "data_is_object r =
     (case r of
        Responded status_code text (Inr (JObj result)) \<Rightarrow>
          status_code = 200 \<and> truthy (get_or result (S ''success'') JNull) \<longrightarrow>
            is_dict (get_or result (S ''data'') (JObj []))
      | _ \<Rightarrow> True)"

section \<open>Sample requests\<close>

text \<open>
  The two built-ins of the interpreter for the samples: decimal numerals, \<open>None\<close>,
  \<open>True\<close> and \<open>False\<close> (no sample prints a float or a container), and the messages of
  CPython 3.12.
\<close>

fun decimal :: "nat \<Rightarrow> pystr" where
  "decimal n = (if n < 10 then [48 + n] else decimal (n div 10) @ [48 + n mod 10])"

definition sample_str :: "json \<Rightarrow> pystr" where
  "sample_str v =
     (case v of
        JNull \<Rightarrow> S ''None''
      | JBool b \<Rightarrow> if b then S ''True'' else S ''False''
      | JInt i \<Rightarrow> if i < 0 then [45] @ decimal (nat (- i)) else decimal (nat i)
      | _ \<Rightarrow> [])"

definition sample_exc_text :: "exn \<Rightarrow> pystr" where
  "sample_exc_text e =
     (case e of
        AttributeError t a \<Rightarrow>
          [39] @ t @ [39] @ S '' object has no attribute '' @ [39] @ a @ [39]
      | TypeError t \<Rightarrow> S ''argument of type '' @ [39] @ t @ [39] @ S '' is not iterable''
      | KeyError k \<Rightarrow> [39] @ k @ [39]
      | UnboundLocalError v \<Rightarrow>
          S ''cannot access local variable '' @ [39] @ v @ [39] @
          S '' where it is not associated with a value''
      | ValueError m \<Rightarrow> m
      | RequestException m \<Rightarrow> m
      | External m \<Rightarrow> m)"

text \<open>
  A sample world: the project is \<open>demo\<close>, the secret manager and the downstream service
  are given.
\<close>

definition sample_world :: "json \<Rightarrow> (pystr \<Rightarrow> exn + pystr) \<Rightarrow> post_result \<Rightarrow> world" where
  "sample_world rj secrets answer =
     \<lparr>request_json = rj,
      environ = (\<lambda>k. if k = S ''GCP_PROJECT'' then Some (S ''demo'') else None),
      access_secret_version = secrets,
      requests_post = (\<lambda>url payload headers. answer),
      builtin_str = sample_str,
      exc_text = sample_exc_text\<rparr>"

text \<open>Every secret is there; the platform URL is among them.\<close>

definition all_secrets :: "pystr \<Rightarrow> exn + pystr" where
  "all_secrets name =
     (if name = S ''projects/demo/secrets/stratix-platform-url/versions/latest'' then
        Inr (S ''https://app.example'')
      else Inr (S ''value''))"

text \<open>The two credentials are there; the platform URL is not configured.\<close>

definition no_platform_url :: "pystr \<Rightarrow> exn + pystr" where
  "no_platform_url name =
     (if name = S ''projects/demo/secrets/stratix-platform-url/versions/latest'' then
        Inl (External (S ''404 Secret not found''))
      else Inr (S ''value''))"

text \<open>The credentials are empty.\<close>

definition empty_secrets :: "pystr \<Rightarrow> exn + pystr" where
  "empty_secrets name = Inr []"

definition webhook_request :: "pystr \<Rightarrow> (pystr \<times> json) list \<Rightarrow> pystr \<Rightarrow> json" where
  "webhook_request tag parameters text =
     JObj [(S ''fulfillmentInfo'', JObj [(S ''tag'', JStr tag)]),
           (S ''sessionInfo'', JObj [(S ''parameters'', JObj parameters)]),
           (S ''text'', JStr text)]"

definition tool_request :: "pystr \<Rightarrow> (pystr \<times> json) list \<Rightarrow> json" where
  "tool_request tool parameters =
     JObj [(S ''tool'', JStr tool), (S ''tool_parameters'', JObj parameters)]"

definition success_answer :: "json \<Rightarrow> post_result" where
  "success_answer data =
     Responded 200 [] (Inr (JObj [(S ''success'', JBool True), (S ''data'', data)]))"

text \<open>
  The question of the specification: U+00BF, \<open>C\<close>, U+00F3, \<open>mo va la Iniciativa de
  Migraci\<close>, U+00F3, \<open>n de Datos?\<close>
\<close>

definition migration_question :: pystr where
  "migration_question =
     [191] @ S ''C'' @ [243] @ S ''mo va la Iniciativa de Migraci'' @ [243] @
     S ''n de Datos?''"

text \<open>The expected name: \<open>Migraci\<close>, U+00F3, \<open>n De Datos\<close>\<close>

definition migration_name :: pystr where
  "migration_name = S ''Migraci'' @ [243] @ S ''n De Datos''"

definition initiative_data :: json where
  "initiative_data =
     JObj [(S ''id'', JStr (S ''i-7'')), (S ''title'', JStr (S ''Datos'')),
           (S ''progress'', JInt 40), (S ''status'', JStr (S ''en curso''))]"

text \<open>Sample worlds, by the request and by what the collaborators do.\<close>

definition unsupported_world :: world where
  "unsupported_world =
     sample_world (webhook_request (S ''foo'') [] (S ''hola'')) all_secrets
       (success_answer (JObj []))"

definition overview_world :: world where
  "overview_world =
     sample_world (webhook_request (S ''company_overview'') [] []) all_secrets
       (success_answer (JObj []))"

definition migration_world :: world where
  "migration_world =
     sample_world (webhook_request (S ''initiative_status'') [] migration_question)
       all_secrets (success_answer initiative_data)"

definition blank_name_request :: json where
  "blank_name_request = webhook_request (S ''initiative_status'') [] (S ''iniciativa  ?'')"

definition no_match_request :: json where
  "no_match_request = webhook_request (S ''initiative_status'') [] (S ''hola'')"

definition named_initiative :: "(pystr \<times> json) list" where
  "named_initiative = [(S ''nombre_iniciativa'', JStr (S ''Datos''))]"

definition no_url_world :: world where
  "no_url_world =
     sample_world (tool_request (S ''agent/tools/initiative_status'') named_initiative)
       no_platform_url (success_answer initiative_data)"

definition name_and_user :: "(pystr \<times> json) list" where
  "name_and_user = [(S ''nombre_iniciativa'', JStr (S ''X'')), (S ''user_id'', JStr (S ''u1''))]"

definition precedence_world :: world where
  "precedence_world =
     sample_world (tool_request (S ''agent/tools/lookup'') name_and_user) all_secrets
       (success_answer (JObj []))"



definition list_data_world :: world where
  "list_data_world =
     sample_world (webhook_request (S ''company_overview'') [] []) all_secrets
       (success_answer (JList []))"

definition empty_credentials_world :: world where
  "empty_credentials_world =
     sample_world (webhook_request (S ''company_overview'') [] []) empty_secrets
       (success_answer (JObj []))"

section \<open>Facts about the model\<close>

lemma S_eq [simp]: "S a = S b \<longleftrightarrow> a = b"
  by (simp add: S_def inj_on_def)

lemma S_Nil [simp]: "S a = [] \<longleftrightarrow> a = []"
  by (simp add: S_def)

lemma bind_Inl [simp]: "bind (Inl e) f = Inl e"
  by (simp add: bind_def)

lemma bind_Inr [simp]: "bind (Inr x) f = f x"
  by (simp add: bind_def)

lemma bind_eq_Inr: "bind m f = Inr y \<longleftrightarrow> (\<exists>x. m = Inr x \<and> f x = Inr y)"
  by (cases m) simp_all

lemma py_get_Inr: "py_get x k d = Inr v \<Longrightarrow> \<exists>kv. x = JObj kv"
  by (cases x) simp_all

lemma param_chain_dict:
  "param_chain (JObj kv) other =
     (if has_key kv (S ''nombre_iniciativa'') \<or> has_key kv (S ''initiative_id'') then
        Inr (S ''get_initiative_status'',
             JObj [(S ''nombre_iniciativa'', get_or kv (S ''nombre_iniciativa'') JNull),
                   (S ''initiative_id'', get_or kv (S ''initiative_id'') JNull)])
      else if has_key kv (S ''nombre_area'') \<or> has_key kv (S ''area_id'') then
        Inr (S ''get_area_kpis'',
             JObj [(S ''nombre_area'', get_or kv (S ''nombre_area'') JNull),
                   (S ''area_id'', get_or kv (S ''area_id'') JNull)])
      else if has_key kv (S ''user_id'') then
        Inr (S ''get_user_initiatives'',
             JObj [(S ''user_id'', get_or kv (S ''user_id'') JNull),
                   (S ''limit'', get_or kv (S ''limit'') (JInt 10))])
      else if has_key kv (S ''query'') then
        Inr (S ''search_initiatives'',
             JObj [(S ''query'', get_or kv (S ''query'') JNull),
                   (S ''limit'', get_or kv (S ''limit'') (JInt 20))])
      else if get_or kv (S ''action'') JNull = JStr (S ''company_overview'') then
        Inr (S ''get_company_overview'', JObj [])
      else if get_or kv (S ''action'') JNull = JStr (S ''suggestions'') then
        Inr (S ''get_initiative_suggestions'',
             JObj [(S ''area_id'', get_or kv (S ''area_id'') JNull),
                   (S ''user_role'', get_or kv (S ''user_role'') JNull)])
      else other)"
  by (simp add: param_chain_def either_in_def two_params_def with_action_def)

lemma param_chain_Inr_dict:
  "param_chain params other = Inr m \<Longrightarrow> \<exists>kv. params = JObj kv"
  by (cases params)
     (auto simp: param_chain_def either_in_def two_params_def with_action_def bind_def
           split: if_splits sum.splits)

lemma first_match_wins_eq:
  "first_match_wins kv =
     (if has_key kv (S ''nombre_iniciativa'') \<or> has_key kv (S ''initiative_id'') then
        Some (S ''get_initiative_status'')
      else if has_key kv (S ''nombre_area'') \<or> has_key kv (S ''area_id'') then
        Some (S ''get_area_kpis'')
      else if has_key kv (S ''user_id'') then Some (S ''get_user_initiatives'')
      else if has_key kv (S ''query'') then Some (S ''search_initiatives'')
      else if get_or kv (S ''action'') JNull = JStr (S ''company_overview'') then
        Some (S ''get_company_overview'')
      else if get_or kv (S ''action'') JNull = JStr (S ''suggestions'') then
        Some (S ''get_initiative_suggestions'')
      else None)"
  by (simp add: first_match_wins_def tool_predicates_def)

lemma default_action_kind:
  "map_parameters_default params = Inr m \<Longrightarrow> fst m \<in> action_kinds"
proof -
  assume a: "map_parameters_default params = Inr m"
  then obtain kv where "params = JObj kv"
    unfolding map_parameters_default_def by (blast dest: param_chain_Inr_dict)
  with a show ?thesis
    by (auto simp: map_parameters_default_def param_chain_dict action_kinds_def
             split: if_splits)
qed

lemma make_payload_fields:
  assumes "make_payload action supabase_params params = Inr payload"
  shows "py_get payload (S ''action'') JNull = Inr (JStr action) \<and>
         py_get payload (S ''params'') JNull = Inr supabase_params"
  using assms
  by (auto simp: make_payload_def bind_eq_Inr get_or_def Let_def split: if_splits)

lemma route_Call:
  assumes "route w t (params, a1, sp1) = Inr (Call action url payload headers)"
  shows "\<exists>m. map_parameters_default params = Inr m \<and> action = fst m \<and>
             make_payload (fst m) (snd m) params = Inr payload"
  using assms
  by (auto simp: route_def bind_eq_Inr credentials_reply_def Let_def
           split: if_splits option.splits)


lemma outbound_Some:
  assumes "outbound w = Some (url, payload, headers)"
  shows "\<exists>params a1 sp1 action.
           snd (normalize w (request_json w)) = Inr (params, a1, sp1) \<and>
           route w (fst (normalize w (request_json w))) (params, a1, sp1) =
             Inr (Call action url payload headers)"
  using assms
  by (auto simp: outbound_def prepare_def Let_def bind_eq_Inr
           split: if_splits sum.splits step.splits)

lemma S_append: "S a @ S b = S (a @ b)"
  by (simp add: S_def)

lemma S_append_more: "S a @ S b @ r = S (a @ b) @ r"
  by (simp add: S_def)

lemmas text_defs =
  S_def py_strip_def py_isspace_def py_lower_def lower_cp_def is_upper_cp_def is_lower_cp_def
  is_cased_def title_cp_def py_title_def cat_def match_here_def re_sub_anchored_def
  opt_de_def opt_la_def name_group_def initiative_patterns_def initiative_cleanup_def
  area_word_def division_word_def area_patterns_def area_cleanup_def
  extract_initiative_name_from_text_def extract_area_name_from_text_def

lemmas model_defs =
  bot_stratix_backend_generative_def outbound_def try_block_def prepare_def normalize_def
  webhook_normalize_def tool_normalize_def tool_name_def route_def get_secret_def py_or_def
  map_parameters_default_def map_tool_parameters_def param_chain_dict make_payload_def
  credentials_reply_def call_downstream_def enrich_def enrich_with_def
  get_platform_base_url_def respond_def on_exception_def exc_str_def py_str_def
  is_request_exception_def is_value_error_def has_key_def get_or_def as_str_def
  name_params_def linked_def py_setitem_def initiative_summary_def area_summary_def
  company_summary_def

lemmas sample_defs =
  sample_world_def webhook_request_def tool_request_def success_answer_def all_secrets_def
  no_platform_url_def empty_secrets_def sample_exc_text_def S_append S_append_more

lemma py_strip_value [simp]: "py_strip (S ''value'') = S ''value''"
  by (simp add: py_strip_def S_def py_isspace_def)

lemma py_strip_url [simp]: "py_strip (S ''https://app.example'') = S ''https://app.example''"
  by (simp add: py_strip_def S_def py_isspace_def)

lemma py_strip_empty [simp]: "py_strip [] = []"
  by (simp add: py_strip_def)

lemma extract_migration:
  "extract_initiative_name_from_text migration_question = Some migration_name"
  by (simp add: text_defs migration_question_def migration_name_def)

lemma migration_name_not_empty: "migration_name \<noteq> []"
  by (simp add: migration_name_def S_def)

lemma overview_outbound:
  "outbound overview_world =
     Some (S ''value'',
           JObj [(S ''action'', JStr (S ''get_company_overview'')), (S ''params'', JObj [])],
           make_headers (S ''value''))"
  by (simp add: overview_world_def model_defs sample_defs)

lemma migration_normalize:
  "snd (normalize migration_world (request_json migration_world)) =
     Inr (JObj [], S ''get_initiative_status'',
          JObj [(S ''nombre_iniciativa'', JStr migration_name)])"
  by (simp add: migration_world_def model_defs sample_defs extract_migration
        migration_name_not_empty)

lemma migration_outbound:
  "outbound migration_world =
     Some (S ''value'',
           JObj [(S ''action'', JStr (S ''get_company_overview'')), (S ''params'', JObj [])],
           make_headers (S ''value''))"
  by (simp add: migration_world_def model_defs sample_defs extract_migration
        migration_name_not_empty)

section \<open>The outbound call\<close>

text \<open>
  C8. Whenever a request results in a call to the downstream service, the \<open>action\<close>
  field of the payload is one of the six actions of the closed set.
\<close>

theorem outbound_action_closed:
  assumes "outbound w = Some (url, payload, headers)"
  shows "\<exists>a. py_get payload (S ''action'') JNull = Inr (JStr a) \<and> a \<in> action_kinds"
proof -
  from assms obtain params a1 sp1 action where
    r: "route w (fst (normalize w (request_json w))) (params, a1, sp1) =
          Inr (Call action url payload headers)"
    by (blast dest: outbound_Some)
  then obtain m where m: "map_parameters_default params = Inr m"
    and p: "make_payload (fst m) (snd m) params = Inr payload"
    by (blast dest: route_Call)
  from p have "py_get payload (S ''action'') JNull = Inr (JStr (fst m))"
    by (simp add: make_payload_fields)
  moreover from m have "fst m \<in> action_kinds"
    by (rule default_action_kind)
  ultimately show ?thesis by blast
qed

theorem outbound_action_closed_witness:
  "outbound overview_world =
     Some (S ''value'',
           JObj [(S ''action'', JStr (S ''get_company_overview'')), (S ''params'', JObj [])],
           make_headers (S ''value'')) \<and>
   (\<exists>a. py_get (JObj [(S ''action'', JStr (S ''get_company_overview'')),
                      (S ''params'', JObj [])])
          (S ''action'') JNull = Inr (JStr a) \<and> a \<in> action_kinds)"
  using outbound_action_closed [OF overview_outbound] overview_outbound by simp



section \<open>The tool-call mapper\<close>

text \<open>
  C5. The tool-call mapper resolves a parameter mapping to the action of the first
  predicate that holds, in the order of the specification, and raises where none
  holds; the action sent downstream for a tool call is that same action; a mapping
  with both \<open>nombre_iniciativa\<close> and \<open>user_id\<close> resolves to \<open>get_initiative_status\<close>, not
  to \<open>get_user_initiatives\<close>.
\<close>

theorem tool_precedence:
  "(case first_match_wins kv of
      None \<Rightarrow>
        map_tool_parameters w (JObj kv) =
          Inl (ValueError (S ''No valid action found for tool parameters: '' @
                           py_str w (JObj kv)))
    | Some a \<Rightarrow>
        (\<exists>sp. map_tool_parameters w (JObj kv) = Inr (a, sp) \<and>
              map_parameters_default (JObj kv) = Inr (a, sp))) \<and>
   (has_key kv (S ''nombre_iniciativa'') \<and> has_key kv (S ''user_id'') \<longrightarrow>
      first_match_wins kv = Some (S ''get_initiative_status'') \<and>
      (\<forall>sp. map_tool_parameters w (JObj kv) \<noteq> Inr (S ''get_user_initiatives'', sp)))"
  by (simp add: first_match_wins_eq map_tool_parameters_def map_parameters_default_def
        param_chain_dict)

theorem tool_precedence_witness:
  "has_key name_and_user (S ''nombre_iniciativa'') \<and> has_key name_and_user (S ''user_id'') \<and>
   first_match_wins name_and_user = Some (S ''get_initiative_status'') \<and>
   map_tool_parameters precedence_world (JObj name_and_user) =
     Inr (S ''get_initiative_status'',
          JObj [(S ''nombre_iniciativa'', JStr (S ''X'')), (S ''initiative_id'', JNull)])"
proof -
  have k: "has_key name_and_user (S ''nombre_iniciativa'') \<and>
           has_key name_and_user (S ''user_id'')"
    by (simp add: name_and_user_def has_key_def)
  have m: "map_parameters_default (JObj name_and_user) =
             Inr (S ''get_initiative_status'',
                  JObj [(S ''nombre_iniciativa'', JStr (S ''X'')), (S ''initiative_id'', JNull)])"
    by (simp add: name_and_user_def map_parameters_default_def param_chain_dict has_key_def
          get_or_def)
  from tool_precedence [where kv = name_and_user and w = precedence_world] k m show ?thesis
    by auto
qed




section \<open>Free-text extraction and the tag mapping\<close>

text \<open>
  C9. On the text \<open>iniciativa  ?\<close> the first pattern matches with a group of one blank,
  which strips to the empty string, so the extraction returns the empty string and not
  \<open>None\<close>; the tag mapping then leaves out the key \<open>nombre_iniciativa\<close>, as it does for a
  text that no pattern matches.
\<close>

theorem blank_name_extracted:
  "first_match initiative_patterns (S ''iniciativa  ?'') = Some (S '' '') \<and>
   extract_initiative_name_from_text (S ''iniciativa  ?'') = Some [] \<and>
   extract_initiative_name_from_text (S ''hola'') = None \<and>
   webhook_normalize w blank_name_request =
     Inr (JObj [], S ''get_initiative_status'', JObj []) \<and>
   webhook_normalize w no_match_request =
     Inr (JObj [], S ''get_initiative_status'', JObj [])"
proof -
  have a: "first_match initiative_patterns (S ''iniciativa  ?'') = Some (S '' '')"
    by (simp add: text_defs)
  have b: "extract_initiative_name_from_text (S ''iniciativa  ?'') = Some []"
    by (simp add: text_defs)
  have c: "extract_initiative_name_from_text (S ''hola'') = None"
    by (simp add: text_defs)
  have d: "webhook_normalize w blank_name_request =
     Inr (JObj [], S ''get_initiative_status'', JObj [])"
    by (simp add: blank_name_request_def webhook_request_def webhook_normalize_def
          get_or_def as_str_def name_params_def b)
  have e: "webhook_normalize w no_match_request =
     Inr (JObj [], S ''get_initiative_status'', JObj [])"
    by (simp add: no_match_request_def webhook_request_def webhook_normalize_def
          get_or_def as_str_def name_params_def c)
  from a b c d e show ?thesis by simp
qed

text \<open>
  C4. On the webhook call with tag \<open>initiative_status\<close>, the question of the
  specification and empty session parameters, the extraction gives the expected name
  and the tag mapping gives \<open>get_initiative_status\<close> with that name; the call that is
  made carries \<open>get_company_overview\<close> with empty params.
\<close>

theorem initiative_status_tag_overridden:
  "extract_initiative_name_from_text migration_question = Some migration_name \<and>
   snd (normalize migration_world (request_json migration_world)) =
     Inr (JObj [], S ''get_initiative_status'',
          JObj [(S ''nombre_iniciativa'', JStr migration_name)]) \<and>
   outbound migration_world =
     Some (S ''value'',
           JObj [(S ''action'', JStr (S ''get_company_overview'')), (S ''params'', JObj [])],
           make_headers (S ''value''))"
  using extract_migration migration_normalize migration_outbound by simp

section \<open>Enrichment without a platform URL\<close>

text \<open>
  C3. On a tool call for an initiative, with the platform URL neither in the
  environment nor among the secrets, the response is not aborted and has no \<open>link\<close>,
  and it has no \<open>resumen\<close> either: the output is the data of the downstream service as
  it came.
\<close>

theorem missing_platform_url_drops_summary:
  "get_platform_base_url no_url_world =
     Inl (ValueError (S ''Platform URL not configured - add STRATIX_PLATFORM_URL environment variable or secret'')) \<and>
   bot_stratix_backend_generative no_url_world =
     Inr (Response 200
       (JObj [(S ''tool_output'',
          JList [JObj [(S ''tool'', JStr (S ''agent/tools/initiative_status'')),
                       (S ''output'', initiative_data)]])])) \<and>
   py_contains (S ''link'') initiative_data = Inr False \<and>
   py_contains (S ''resumen'') initiative_data = Inr False"
proof -
  have a: "get_platform_base_url no_url_world =
     Inl (ValueError (S ''Platform URL not configured - add STRATIX_PLATFORM_URL environment variable or secret''))"
    by (simp add: no_url_world_def get_platform_base_url_def get_secret_def py_or_def
          sample_defs)
  have b: "bot_stratix_backend_generative no_url_world =
     Inr (Response 200
       (JObj [(S ''tool_output'',
          JList [JObj [(S ''tool'', JStr (S ''agent/tools/initiative_status'')),
                       (S ''output'', initiative_data)]])]))"
    by (simp add: no_url_world_def named_initiative_def model_defs sample_defs)
  have c: "py_contains (S ''link'') initiative_data = Inr False \<and>
           py_contains (S ''resumen'') initiative_data = Inr False"
    by (simp add: initiative_data_def has_key_def)
  from a b c show ?thesis by simp
qed

section \<open>Errors on the webhook path\<close>

lemma webhook_prepare:
  assumes "has_key kv (S ''fulfillmentInfo'')"
  shows "prepare w (JObj kv) = (None, bind (webhook_normalize w (JObj kv)) (route w None))"
  using assms by (simp add: prepare_def normalize_def)

lemma route_None_no_Return: "route w None n \<noteq> Inr (Return r)"
  by (auto simp: route_def credentials_reply_def Let_def bind_eq_Inr split: if_splits)

lemma webhook_prepare_no_Return:
  assumes "has_key kv (S ''fulfillmentInfo'')"
  shows "snd (prepare w (JObj kv)) \<noteq> Inr (Return r)"
  using assms route_None_no_Return [of w]
  by (auto simp: webhook_prepare bind_eq_Inr)

lemma respond_webhook:
  assumes "has_key kv (S ''fulfillmentInfo'')"
  shows "respond w (JObj kv) t (JObj od) =
     Inr (Response 200
       (webhook_reply
         (case map_of od (S ''error'') of
            None \<Rightarrow> get_or od (S ''resumen'') (JStr (S ''Datos obtenidos correctamente de Stratix.''))
          | Some err \<Rightarrow> JStr (S ''Lo siento, hubo un error: '' @ py_str w err))))"
  using assms by (simp add: respond_def has_key_def split: option.splits)

lemma py_setitem_Inr: "py_setitem x k v = Inr d \<Longrightarrow> is_dict d"
  by (cases x) (auto simp: py_setitem_def)

lemma enrich_with_dict:
  assumes "enrich_with w u a (JObj od) = Inr d"
  shows "is_dict d"
  using assms
  by (auto simp: enrich_with_def bind_eq_Inr split: if_splits dest: py_setitem_Inr)

lemma enrich_dict:
  assumes "enrich w a (JObj od) = Inr d"
  shows "is_dict d"
  using assms
  by (auto simp: enrich_def split: sum.splits if_splits dest: enrich_with_dict)

lemma is_dict_JObj: "is_dict x \<Longrightarrow> \<exists>kv. x = JObj kv"
  by (cases x) simp_all

lemma call_downstream_dict:
  assumes "data_is_object (requests_post w u p h)"
    and "call_downstream w a u p h = Inr d"
  shows "is_dict d"
proof (cases "requests_post w u p h")
  case (PostRaised e)
  with assms(2) show ?thesis by (simp add: call_downstream_def)
next
  case (Responded st content decoded)
  show ?thesis
  proof (cases "st = 200")
    case False
    with Responded assms(2) show ?thesis by (auto simp: call_downstream_def)
  next
    case True
    with Responded assms(2) obtain result success where
      d: "decoded = Inr result" and s: "py_get result (S ''success'') JNull = Inr success"
      by (auto simp: call_downstream_def bind_eq_Inr)
    from s obtain res where r: "result = JObj res" by (blast dest: py_get_Inr)
    show ?thesis
    proof (cases "truthy success")
      case False
      with Responded True d s assms(2) show ?thesis
        by (auto simp: call_downstream_def bind_eq_Inr)
    next
      case t: True
      with Responded True d s r assms(2) have
        e: "enrich w a (get_or res (S ''data'') (JObj [])) = Inr d"
        by (auto simp: call_downstream_def bind_eq_Inr)
      from Responded True d r s t assms(1) have "is_dict (get_or res (S ''data'') (JObj []))"
        by (simp add: data_is_object_def)
      then obtain od where "get_or res (S ''data'') (JObj []) = JObj od"
        by (blast dest: is_dict_JObj)
      with e show ?thesis by (simp add: enrich_dict)
    qed
  qed
qed

lemma try_block_webhook_output:
  assumes "has_key kv (S ''fulfillmentInfo'')"
  shows "\<exists>d. snd (try_block w (JObj kv)) = Inr d"
proof (cases "snd (prepare w (JObj kv))")
  case (Inl e)
  then show ?thesis by (simp add: try_block_def Let_def)
next
  case (Inr st)
  with webhook_prepare_no_Return [OF assms, of w] show ?thesis
    by (cases st) (auto simp: try_block_def Let_def split: sum.splits)
qed

text \<open>
  C1, as stated: an unsupported tag gives a client error. The webhook call with tag
  \<open>foo\<close> is answered with status 200.
\<close>

theorem unsupported_tag_counterexample:
  "bot_stratix_backend_generative unsupported_world =
     Inr (Response 200
       (webhook_reply
         (JStr (S ''Lo siento, hubo un error: Internal error: Unsupported tag: foo'')))) \<and>
   \<not> client_error (bot_stratix_backend_generative unsupported_world)"
proof -
  have "bot_stratix_backend_generative unsupported_world =
     Inr (Response 200
       (webhook_reply
         (JStr (S ''Lo siento, hubo un error: Internal error: Unsupported tag: foo''))))"
    by (simp add: unsupported_world_def model_defs sample_defs)
  then show ?thesis by (simp add: client_error_def)
qed

text \<open>
  C1, amended. For a webhook call whose tag is none of \<open>company_overview\<close>,
  \<open>initiative_status\<close>, \<open>area_kpis\<close>, normalisation raises the \<open>ValueError\<close> of the
  unsupported tag, no call to the downstream service is made, so no action is
  defaulted, and the reply has status 200 and the webhook shape, with the error in its
  text.
\<close>

theorem unsupported_tag_reply:
  assumes "request_json w = JObj kv"
    and "map_of kv (S ''fulfillmentInfo'') = Some (JObj fi)"
    and "get_or fi (S ''tag'') (JStr []) = tag"
    and "tag \<notin> supported_tags"
    and "request_params (JObj kv) = Inr params"
  shows "snd (normalize w (JObj kv)) =
           Inl (ValueError (S ''Unsupported tag: '' @ py_str w tag)) \<and>
         outbound w = None \<and>
         bot_stratix_backend_generative w =
           Inr (Response 200
             (webhook_reply
               (JStr (S ''Lo siento, hubo un error: Internal error: Unsupported tag: '' @
                      py_str w tag))))"
proof -
  from assms(2) have k: "has_key kv (S ''fulfillmentInfo'')" and ne: "kv \<noteq> []"
    by (auto simp: has_key_def)
  from assms(5) k obtain si where
    si: "py_get (JObj kv) (S ''sessionInfo'') (JObj []) = Inr si" and
    pa: "py_get si (S ''parameters'') (JObj []) = Inr params"
    by (auto simp: request_params_def bind_eq_Inr)
  from assms(2,3,4) si pa have
    n: "webhook_normalize w (JObj kv) =
          Inl (ValueError (S ''Unsupported tag: '' @ py_str w tag))"
    by (auto simp: webhook_normalize_def get_or_def supported_tags_def)
  from k n have p: "prepare w (JObj kv) =
      (None, Inl (ValueError (S ''Unsupported tag: '' @ py_str w tag)))"
    by (simp add: webhook_prepare)
  from k n have a: "snd (normalize w (JObj kv)) =
      Inl (ValueError (S ''Unsupported tag: '' @ py_str w tag))"
    by (simp add: normalize_def)
  from p assms(1) ne have b: "outbound w = None"
    by (simp add: outbound_def)
  from p have t: "try_block w (JObj kv) =
      (None, Inr (JObj [(S ''error'',
         JStr (S ''Internal error: Unsupported tag: '' @ py_str w tag))]))"
    by (simp add: try_block_def on_exception_def is_request_exception_def exc_str_def
          S_append_more)
  from t k assms(1) ne have c: "bot_stratix_backend_generative w =
           Inr (Response 200
             (webhook_reply
               (JStr (S ''Lo siento, hubo un error: Internal error: Unsupported tag: '' @
                      py_str w tag))))"
    by (simp add: bot_stratix_backend_generative_def respond_webhook py_str_def
          S_append_more)
  from a b c show ?thesis by simp
qed

theorem unsupported_tag_reply_witness:
  "JStr (S ''foo'') \<notin> supported_tags \<and>
   outbound unsupported_world = None \<and>
   bot_stratix_backend_generative unsupported_world =
     Inr (Response 200
       (webhook_reply
         (JStr (S ''Lo siento, hubo un error: Internal error: Unsupported tag: foo''))))"
proof -
  have 1: "request_json unsupported_world = webhook_request (S ''foo'') [] (S ''hola'')"
    by (simp add: unsupported_world_def sample_world_def)
  have 2: "webhook_request (S ''foo'') [] (S ''hola'') =
      JObj [(S ''fulfillmentInfo'', JObj [(S ''tag'', JStr (S ''foo''))]),
            (S ''sessionInfo'', JObj [(S ''parameters'', JObj [])]),
            (S ''text'', JStr (S ''hola''))]"
    by (simp add: webhook_request_def)
  have 3: "JStr (S ''foo'') \<notin> supported_tags"
    by (simp add: supported_tags_def)
  have 4: "request_params (webhook_request (S ''foo'') [] (S ''hola'')) = Inr (JObj [])"
    by (simp add: request_params_def webhook_request_def has_key_def get_or_def)
  have "outbound unsupported_world = None \<and>
        bot_stratix_backend_generative unsupported_world =
          Inr (Response 200
            (webhook_reply
              (JStr (S ''Lo siento, hubo un error: Internal error: Unsupported tag: '' @
                     py_str unsupported_world (JStr (S ''foo''))))))"
    using unsupported_tag_reply [of unsupported_world _ "[(S ''tag'', JStr (S ''foo''))]"
        "JStr (S ''foo'')" "JObj []", OF 1 [unfolded 2] _ _ 3 4 [unfolded 2]]
    by (simp add: get_or_def)
  with 3 show ?thesis by (simp add: py_str_def S_append)
qed


lemma overview_request:
  "webhook_request (S ''company_overview'') [] [] =
     JObj [(S ''fulfillmentInfo'', JObj [(S ''tag'', JStr (S ''company_overview''))]),
           (S ''sessionInfo'', JObj [(S ''parameters'', JObj [])]),
           (S ''text'', JStr [])]"
  by (simp add: webhook_request_def)

lemma overview_is_webhook:
  "has_key [(S ''fulfillmentInfo'', JObj [(S ''tag'', JStr (S ''company_overview''))]),
            (S ''sessionInfo'', JObj [(S ''parameters'', JObj [])]),
            (S ''text'', JStr [])] (S ''fulfillmentInfo'')"
  by (simp add: has_key_def)




text \<open>
  C10, as stated: every webhook call is answered with status 200. Where the downstream
  service reports success with a list as its \<open>data\<close>, line 328 raises an
  \<open>AttributeError\<close> outside the \<open>try\<close> statement, and the function gives no response.
\<close>

theorem webhook_status_counterexample:
  "bot_stratix_backend_generative list_data_world =
     Inl (AttributeError (S ''list'') (S ''get''))"
  by (simp add: list_data_world_def model_defs sample_defs)

text \<open>
  C10, amended. A webhook call is answered with status 200 whenever the downstream
  service, where it is called and reports success, gives an object or nothing as its
  \<open>data\<close>: whatever is raised inside the \<open>try\<close> statement ends in the reply. So does
  the branch of the empty credentials: it reads \<open>tool_name_full\<close>, which is unbound on
  the webhook path, and the \<open>UnboundLocalError\<close> ends in a reply of status 200 with the
  error in its text.
\<close>

theorem webhook_status_ok:
  assumes "request_json w = JObj kv"
    and "has_key kv (S ''fulfillmentInfo'')"
    and "\<forall>url payload headers. outbound w = Some (url, payload, headers) \<longrightarrow>
           data_is_object (requests_post w url payload headers)"
  shows "(\<exists>b. bot_stratix_backend_generative w = Inr (Response 200 b)) \<and>
         (\<forall>n url key.
            webhook_normalize w (JObj kv) = Inr n \<and>
            get_secret w (S ''supabase-edge-function-url'') = Inr url \<and>
            get_secret w (S ''supabase-anon-key'') = Inr key \<and>
            (url = [] \<or> key = []) \<longrightarrow>
            bot_stratix_backend_generative w =
              Inr (Response 200
                (webhook_reply
                  (JStr (S ''Lo siento, hubo un error: Internal error: '' @
                         exc_text w (UnboundLocalError (S ''tool_name_full'')))))))"
proof (intro conjI allI impI)
  from assms(2) have ne: "kv \<noteq> []" by (auto simp: has_key_def)
  obtain d where t: "snd (try_block w (JObj kv)) = Inr d"
    using try_block_webhook_output [OF assms(2)] by blast
  have "is_dict d"
  proof (cases "snd (prepare w (JObj kv))")
    case (Inl e)
    with t show ?thesis by (auto simp: try_block_def Let_def on_exception_def)
  next
    case (Inr st)
    show ?thesis
    proof (cases st)
      case (Return r)
      with Inr webhook_prepare_no_Return [OF assms(2), of w r] show ?thesis by simp
    next
      case (Call action url payload headers)
      with Inr assms(1) ne have "outbound w = Some (url, payload, headers)"
        by (simp add: outbound_def)
      with assms(3) have o: "data_is_object (requests_post w url payload headers)"
        by blast
      show ?thesis
      proof (cases "call_downstream w action url payload headers")
        case (Inl e)
        with Inr Call t show ?thesis
          by (auto simp: try_block_def Let_def on_exception_def)
      next
        case r: (Inr d')
        with Inr Call t have "d' = d" by (simp add: try_block_def Let_def)
        with r o show ?thesis by (blast dest: call_downstream_dict)
      qed
    qed
  qed
  then obtain od where "d = JObj od" by (blast dest: is_dict_JObj)
  with t assms(1,2) ne show "\<exists>b. bot_stratix_backend_generative w = Inr (Response 200 b)"
    by (simp add: bot_stratix_backend_generative_def respond_webhook)
next
  fix n url key
  assume a: "webhook_normalize w (JObj kv) = Inr n \<and>
            get_secret w (S ''supabase-edge-function-url'') = Inr url \<and>
            get_secret w (S ''supabase-anon-key'') = Inr key \<and>
            (url = [] \<or> key = [])"
  from assms(2) have ne: "kv \<noteq> []" by (auto simp: has_key_def)
  from a have "route w None n = Inl (UnboundLocalError (S ''tool_name_full''))"
    by (auto simp: route_def credentials_reply_def Let_def)
  with a assms(2) have "prepare w (JObj kv) =
      (None, Inl (UnboundLocalError (S ''tool_name_full'')))"
    by (simp add: webhook_prepare)
  then have "try_block w (JObj kv) =
      (None, Inr (JObj [(S ''error'',
         JStr (S ''Internal error: '' @ exc_text w (UnboundLocalError (S ''tool_name_full''))))]))"
    by (simp add: try_block_def on_exception_def is_request_exception_def exc_str_def)
  with assms(1,2) ne show "bot_stratix_backend_generative w =
              Inr (Response 200
                (webhook_reply
                  (JStr (S ''Lo siento, hubo un error: Internal error: '' @
                         exc_text w (UnboundLocalError (S ''tool_name_full''))))))"
    by (simp add: bot_stratix_backend_generative_def respond_webhook py_str_def
          S_append_more)
qed

text \<open>
  Two witnesses: the webhook call for the company overview that the downstream service
  answers with an empty object, and the same call with empty credentials, where no
  call is made and the reply of status 200 tells of the unbound variable.
\<close>

theorem webhook_status_ok_witness:
  "data_is_object (success_answer (JObj [])) \<and>
   (\<exists>b. bot_stratix_backend_generative overview_world = Inr (Response 200 b)) \<and>
   outbound empty_credentials_world = None \<and>
   get_secret empty_credentials_world (S ''supabase-edge-function-url'') = Inr [] \<and>
   bot_stratix_backend_generative empty_credentials_world =
     Inr (Response 200
       (webhook_reply
         (JStr (S ''Lo siento, hubo un error: Internal error: '' @
                sample_exc_text (UnboundLocalError (S ''tool_name_full''))))))"
proof -
  have r0: "request_json overview_world = webhook_request (S ''company_overview'') [] []"
    by (simp add: overview_world_def sample_world_def)
  have d: "data_is_object (success_answer (JObj []))"
    by (simp add: data_is_object_def success_answer_def get_or_def)
  then have h0: "\<forall>url payload headers.
      outbound overview_world = Some (url, payload, headers) \<longrightarrow>
      data_is_object (requests_post overview_world url payload headers)"
    by (simp add: overview_world_def sample_world_def)
  from webhook_status_ok [OF r0 [unfolded overview_request] overview_is_webhook h0]
  have g: "\<exists>b. bot_stratix_backend_generative overview_world = Inr (Response 200 b)"
    by blast
  have r: "request_json empty_credentials_world =
      webhook_request (S ''company_overview'') [] []"
    by (simp add: empty_credentials_world_def sample_world_def)
  have o: "outbound empty_credentials_world = None"
    by (simp add: empty_credentials_world_def model_defs sample_defs)
  have n: "webhook_normalize empty_credentials_world
             (webhook_request (S ''company_overview'') [] []) =
           Inr (JObj [], S ''get_company_overview'', JObj [])"
    by (simp add: webhook_request_def webhook_normalize_def get_or_def)
  have u: "get_secret empty_credentials_world (S ''supabase-edge-function-url'') = Inr []"
    by (simp add: empty_credentials_world_def get_secret_def py_or_def sample_defs)
  have k: "get_secret empty_credentials_world (S ''supabase-anon-key'') = Inr []"
    by (simp add: empty_credentials_world_def get_secret_def py_or_def sample_defs)
  have e: "exc_text empty_credentials_world = sample_exc_text"
    by (simp add: empty_credentials_world_def sample_world_def)
  from o have h: "\<forall>url payload headers.
      outbound empty_credentials_world = Some (url, payload, headers) \<longrightarrow>
      data_is_object (requests_post empty_credentials_world url payload headers)"
    by simp
  from webhook_status_ok [OF r [unfolded overview_request] overview_is_webhook h]
    n [unfolded overview_request] u k
  have "bot_stratix_backend_generative empty_credentials_world =
     Inr (Response 200
       (webhook_reply
         (JStr (S ''Lo siento, hubo un error: Internal error: '' @
                exc_text empty_credentials_world (UnboundLocalError (S ''tool_name_full''))))))"
    by blast
  with d g o u e show ?thesis by simp
qed

end
